theory Spec2Isabelle
  imports Main "HOL-Library.Char_ord" "HOL-Library.List_Lexorder"
begin

section \<open>Data model\<close>

text \<open>
  A JavaScript string is modelled as a \<^typ>\<open>string\<close>, a list of characters ordered by
  their ordinal; lists are ordered lexicographically, a proper prefix before its
  extensions, which is how the default comparison of \<^verbatim>\<open>Array.prototype.sort\<close> orders
  the code units of two strings.

  The own properties of an object with string keys, and the entries of a \<^verbatim>\<open>Map\<close>, are
  association lists in insertion order, with at most one entry per key:
  \<^verbatim>\<open>Object.keys\<close>, \<^verbatim>\<open>Object.entries\<close> and \<^verbatim>\<open>Map.prototype.forEach\<close> run through the
  entries in that order, and a read of a key is \<open>map_of\<close>, \<open>None\<close> standing for
  \<^verbatim>\<open>undefined\<close>.
  JavaScript lists the keys of an object that are array indices first; the canonical key
  sorts the keys, the search only asks whether all entries agree, and what is proved of
  the selected options does not depend on their order. A product's criteria hold strings
  only, as the \<^verbatim>\<open>MatchCriteria\<close> interface says, so a key that is read from the
  prototype never equals a value.
\<close>

type_synonym MatchCriteria = "(string \<times> string) list"

datatype TreeNode =
  TreeNode (id_TreeNode: string) (label_TreeNode: string) (labelAr_TreeNode: string)
    (type_TreeNode: string) (required: bool) (options: "TreeOption list")
and TreeOption =
  TreeOption (value_TreeOption: string) (label_TreeOption: string)
    (labelAr_TreeOption: string) (children: "TreeNode option")

record Addon =
  id_Addon :: string
  name :: string
  nameAr :: string
  maxInstances :: int
  itemChoiceKey :: string
  pricingKey :: string
  tree :: TreeNode

record Product =
  id_Product :: string
  addonType :: string
  matchCriteria :: MatchCriteria

text \<open>
  Both services test \<^verbatim>\<open>attributes.addons\<close> and \<^verbatim>\<open>attributes.products\<close> for
  presence before they iterate, so the two sequences are optional in the model; an
  array, also the empty one, is truthy.
\<close>

record Attributes =
  controlType :: string
  configGroupName :: string
  addons :: "Addon list option"
  products :: "Product list option"

record ProductData =
  attributes :: Attributes

text \<open>
  The object \<^verbatim>\<open>{ [key: string]: TreeOption }\<close> that collects the selected options. It
  is written to, so beside its own properties the model keeps its prototype: \<open>None\<close>
  is \<^verbatim>\<open>Object.prototype\<close>, which an object created by \<^verbatim>\<open>{}\<close> has, and \<open>Some opt\<close> an
  option that has taken its place and inherits from it.
\<close>

record OptionsObject =
  own :: "(string \<times> TreeOption) list"
  proto :: "TreeOption option"

record EnrichedCriteria =
  productId :: string
  addonType_Enriched :: string
  matchCriteria_Enriched :: MatchCriteria
  selectedOptions :: OptionsObject
  addon :: Addon

datatype fault = TypeError

section \<open>Maps and objects\<close>

text \<open>
  \<^verbatim>\<open>Map.prototype.set\<close>, and the write of an own property: an existing key keeps its
  position and takes the new value, a new key is appended.
\<close>

fun Map_set :: "('k \<times> 'v) list \<Rightarrow> 'k \<Rightarrow> 'v \<Rightarrow> ('k \<times> 'v) list" where
  "Map_set [] k v = [(k, v)]"
| "Map_set ((k', v') # m) k v =
     (if k' = k then (k, v) # m else (k', v') # Map_set m k v)"

definition Map_get :: "('k \<times> 'v) list \<Rightarrow> 'k \<Rightarrow> 'v option" where
  "Map_get m k = map_of m k"

definition Object_keys :: "(string \<times> 'v) list \<Rightarrow> string list" where
  "Object_keys obj = map fst obj"

text \<open>The object \<^verbatim>\<open>{}\<close>.\<close>

definition empty_object :: OptionsObject where
  "empty_object = \<lparr>own = [], proto = None\<rparr>"

text \<open>
  The assignment \<^verbatim>\<open>obj[key] = v\<close> of an option to a property of the options object.
  An own property takes the value, and a key the object does not have becomes a new own
  property, with one exception: \<^verbatim>\<open>__proto__\<close> is an accessor of
  \<^verbatim>\<open>Object.prototype\<close>, and unless the object has an own property of that name the
  assignment runs its setter, which makes the option the prototype of the object and
  adds no property.
\<close>

definition assign_property :: "OptionsObject \<Rightarrow> string \<Rightarrow> TreeOption \<Rightarrow> OptionsObject" where
  "assign_property obj key v =
     (if key = ''__proto__'' \<and> map_of (own obj) key = None
      then obj\<lparr>proto := Some v\<rparr>
      else obj\<lparr>own := Map_set (own obj) key v\<rparr>)"

text \<open>\<^verbatim>\<open>Array.prototype.join\<close>.\<close>

fun join :: "string \<Rightarrow> string list \<Rightarrow> string" where
  "join sep [] = []"
| "join sep [x] = x"
| "join sep (x # y # ys) = x @ sep @ join sep (y # ys)"

text \<open>A value inside a template literal: \<^verbatim>\<open>undefined\<close> prints as its name.\<close>

definition template :: "string option \<Rightarrow> string" where
  "template v = (case v of None \<Rightarrow> ''undefined'' | Some s \<Rightarrow> s)"

section \<open>The key codec\<close>

text \<open>
  \<^verbatim>\<open>generateCriteriaKey\<close>, the same in both services:
  \<^verbatim>\<open>
  const keys = Object.keys(criteria).sort();
  return keys.map((key) => `${key}:${criteria[key]}`).join("|");
  \<close>
\<close>

definition generateCriteriaKey :: "MatchCriteria \<Rightarrow> string" where
  "generateCriteriaKey criteria =
     join ''|''
       (map (\<lambda>key. key @ '':'' @ template (map_of criteria key))
         (sort (Object_keys criteria)))"

section \<open>The plain service (productLookup.js)\<close>

record ProductLookupService =
  data :: ProductData
  criteriaToProductId :: "(string \<times> string) list"
  productIdToCriteria :: "(string \<times> MatchCriteria) list"

text \<open>The body of the \<^verbatim>\<open>forEach\<close> callback of \<^verbatim>\<open>initialize\<close>.\<close>

definition register :: "Product \<Rightarrow> ProductLookupService \<Rightarrow> ProductLookupService" where
  "register product s =
     (let s1 = s\<lparr>productIdToCriteria :=
                  Map_set (productIdToCriteria s) (id_Product product) (matchCriteria product)\<rparr>;
          criteriaKey = generateCriteriaKey (matchCriteria product)
      in s1\<lparr>criteriaToProductId :=
              Map_set (criteriaToProductId s1) criteriaKey (id_Product product)\<rparr>)"

definition initialize :: "ProductLookupService \<Rightarrow> ProductLookupService" where
  "initialize s =
     (case products (attributes (data s)) of
        None \<Rightarrow> s
      | Some ps \<Rightarrow> fold register ps s)"

definition constructor :: "ProductData \<Rightarrow> ProductLookupService" where
  "constructor jsonData =
     initialize \<lparr>data = jsonData, criteriaToProductId = [], productIdToCriteria = []\<rparr>"

definition getProductIdByCriteria :: "ProductLookupService \<Rightarrow> MatchCriteria \<Rightarrow> string option" where
  "getProductIdByCriteria s criteria =
     (let key = generateCriteriaKey criteria in Map_get (criteriaToProductId s) key)"

definition getCriteriaByProductId :: "ProductLookupService \<Rightarrow> string \<Rightarrow> MatchCriteria option" where
  "getCriteriaByProductId s pid = Map_get (productIdToCriteria s) pid"

text \<open>
  The \<^verbatim>\<open>for ... of Object.entries(partialCriteria)\<close> loop of
  \<^verbatim>\<open>searchByPartialCriteria\<close>: it leaves with \<^verbatim>\<open>matches = false\<close> at the first entry
  whose value the product's criteria do not hold under that key.
\<close>

fun all_match :: "(string \<times> string) list \<Rightarrow> MatchCriteria \<Rightarrow> bool" where
  "all_match [] criteria = True"
| "all_match ((key, v) # rest) criteria =
     (if map_of criteria key \<noteq> Some v then False else all_match rest criteria)"

text \<open>A result \<^verbatim>\<open>{ id, criteria }\<close> is the pair of the two.\<close>

definition searchByPartialCriteria ::
  "ProductLookupService \<Rightarrow> (string \<times> string) list \<Rightarrow> (string \<times> MatchCriteria) list" where
  "searchByPartialCriteria s partialCriteria =
     fold (\<lambda>(i, criteria) results.
             if all_match partialCriteria criteria then results @ [(i, criteria)] else results)
       (productIdToCriteria s) []"

definition getAllProducts :: "ProductLookupService \<Rightarrow> (string \<times> MatchCriteria) list" where
  "getAllProducts s = fold (\<lambda>(i, criteria) ps. ps @ [(i, criteria)]) (productIdToCriteria s) []"

section \<open>The enriched service (the Angular variant)\<close>

record ProductLookupService_ng =
  criteriaToProductId_ng :: "(string \<times> string) list"
  productIdToCriteria_ng :: "(string \<times> MatchCriteria) list"
  addonsMap :: "(string \<times> Addon) list"
  data_ng :: "ProductData option"

definition constructor_ng :: ProductLookupService_ng where
  "constructor_ng =
     \<lparr>criteriaToProductId_ng = [], productIdToCriteria_ng = [], addonsMap = [], data_ng = None\<rparr>"

definition register_addon :: "Addon \<Rightarrow> ProductLookupService_ng \<Rightarrow> ProductLookupService_ng" where
  "register_addon a s = s\<lparr>addonsMap := Map_set (addonsMap s) (id_Addon a) a\<rparr>"

definition register_ng :: "Product \<Rightarrow> ProductLookupService_ng \<Rightarrow> ProductLookupService_ng" where
  "register_ng product s =
     (let s1 = s\<lparr>productIdToCriteria_ng :=
                  Map_set (productIdToCriteria_ng s) (id_Product product) (matchCriteria product)\<rparr>;
          criteriaKey = generateCriteriaKey (matchCriteria product)
      in s1\<lparr>criteriaToProductId_ng :=
              Map_set (criteriaToProductId_ng s1) criteriaKey (id_Product product)\<rparr>)"

definition initialize_ng :: "ProductLookupService_ng \<Rightarrow> ProductData \<Rightarrow> ProductLookupService_ng" where
  "initialize_ng s jsonData =
     (let s1 = s\<lparr>data_ng := Some jsonData\<rparr>;
          s2 = (case addons (attributes jsonData) of
                  None \<Rightarrow> s1
                | Some as \<Rightarrow> fold register_addon as s1)
      in case products (attributes jsonData) of
           None \<Rightarrow> s2
         | Some ps \<Rightarrow> fold register_ng ps s2)"

text \<open>
  \<^verbatim>\<open>traverseTree\<close>. A criteria value that is \<^verbatim>\<open>undefined\<close> or the empty string is
  falsy; \<^verbatim>\<open>selectedOptions\<close> is mutated in place in the source and returned here.
  The service calls it with \<^verbatim>\<open>{}\<close> for the selected options.
\<close>

function traverseTree ::
  "TreeNode \<Rightarrow> MatchCriteria \<Rightarrow> OptionsObject \<Rightarrow> OptionsObject" where
  "traverseTree node criteria selected =
     (case map_of criteria (id_TreeNode node) of
        None \<Rightarrow> selected
      | Some criteriaValue \<Rightarrow>
          if criteriaValue = [] then selected
          else (case find (\<lambda>opt. value_TreeOption opt = criteriaValue) (options node) of
                  None \<Rightarrow> selected
                | Some option \<Rightarrow>
                    (let selected1 = assign_property selected (id_TreeNode node) option
                     in case children option of
                          None \<Rightarrow> selected1
                        | Some ch \<Rightarrow> traverseTree ch criteria selected1)))"
  by pat_completeness auto
termination
proof (relation "measure (\<lambda>(node, criteria, selected). size node)")
  show "wf (measure (\<lambda>(node, criteria, selected). size node))" by simp
next
  fix node :: TreeNode and criteria :: MatchCriteria
    and selected selected1 :: OptionsObject
    and criteriaValue option ch
  assume f: "find (\<lambda>opt. value_TreeOption opt = criteriaValue) (options node) = Some option"
    and c: "children option = Some ch"
  from f have m: "option \<in> set (options node)"
    by (auto simp: find_Some_iff)
  have "size ch < Suc (size option)"
    using c by (cases option) simp
  moreover have "size option \<le> size_list size (options node)"
    using m by (simp add: size_list_estimation')
  moreover have "size_list size (options node) < size node"
    by (cases node) simp
  ultimately have "size ch < size node" by linarith
  then show "((ch, criteria, selected1), (node, criteria, selected))
      \<in> measure (\<lambda>(node, criteria, selected). size node)"
    by simp
qed

declare traverseTree.simps [simp del]

definition getProductIdByCriteria_ng ::
  "ProductLookupService_ng \<Rightarrow> MatchCriteria \<Rightarrow> string option" where
  "getProductIdByCriteria_ng s criteria =
     (let key = generateCriteriaKey criteria in Map_get (criteriaToProductId_ng s) key)"

text \<open>
  The enriched \<^verbatim>\<open>getCriteriaByProductId\<close>. Reading \<^verbatim>\<open>this.data.attributes\<close> of the
  \<^verbatim>\<open>null\<close> the constructor stores, and calling \<^verbatim>\<open>find\<close> on a products sequence that
  is missing, raise a \<^verbatim>\<open>TypeError\<close>.
\<close>

definition getCriteriaByProductId_ng ::
  "ProductLookupService_ng \<Rightarrow> string \<Rightarrow> fault + EnrichedCriteria option" where
  "getCriteriaByProductId_ng s pid =
     (case Map_get (productIdToCriteria_ng s) pid of
        None \<Rightarrow> Inr None
      | Some mc \<Rightarrow>
          (case data_ng s of
             None \<Rightarrow> Inl TypeError
           | Some d \<Rightarrow>
               (case products (attributes d) of
                  None \<Rightarrow> Inl TypeError
                | Some ps \<Rightarrow>
                    (case find (\<lambda>p. id_Product p = pid) ps of
                       None \<Rightarrow> Inr None
                     | Some product \<Rightarrow>
                         (case Map_get (addonsMap s) (addonType product) of
                            None \<Rightarrow> Inr None
                          | Some a \<Rightarrow>
                              Inr (Some \<lparr>productId = pid,
                                         addonType_Enriched = addonType product,
                                         matchCriteria_Enriched = mc,
                                         selectedOptions = traverseTree (tree a) mc empty_object,
                                         addon = a\<rparr>))))))"

section \<open>The depth of a tree and the resolver with a bound on its call depth\<close>

text \<open>
  The number of nodes on the longest path from a node down through the children of its
  options, and \<^verbatim>\<open>traverseTree\<close> with a bound on the number of nested calls: each call
  takes one unit, and \<open>None\<close> says the bound was reached.
\<close>

fun depth :: "TreeNode \<Rightarrow> nat" and depth_option :: "TreeOption \<Rightarrow> nat" where
  "depth (TreeNode i l la t r opts) = Suc (fold max (map depth_option opts) 0)"
| "depth_option (TreeOption v l la ch) = (case ch of None \<Rightarrow> 0 | Some n \<Rightarrow> depth n)"

fun traverseTree_fuel ::
  "nat \<Rightarrow> TreeNode \<Rightarrow> MatchCriteria \<Rightarrow> OptionsObject \<Rightarrow> OptionsObject option" where
  "traverseTree_fuel 0 node criteria selected = None"
| "traverseTree_fuel (Suc n) node criteria selected =
     (case map_of criteria (id_TreeNode node) of
        None \<Rightarrow> Some selected
      | Some criteriaValue \<Rightarrow>
          if criteriaValue = [] then Some selected
          else (case find (\<lambda>opt. value_TreeOption opt = criteriaValue) (options node) of
                  None \<Rightarrow> Some selected
                | Some option \<Rightarrow>
                    (let selected1 = assign_property selected (id_TreeNode node) option
                     in case children option of
                          None \<Rightarrow> Some selected1
                        | Some ch \<Rightarrow> traverseTree_fuel n ch criteria selected1)))"

section \<open>A catalog for the concrete checks\<close>

text \<open>
  One addon whose tree asks for the vendor and then for the CPU tier, and two products
  of that addon.
\<close>

definition example_cpu :: TreeNode where
  "example_cpu =
     TreeNode ''cpu'' ''CPU'' ''CPU-ar'' ''select'' True
       [TreeOption ''2-cpu'' ''2 CPU'' ''2 CPU-ar'' None,
        TreeOption ''4-cpu'' ''4 CPU'' ''4 CPU-ar'' None]"

definition example_vendor :: TreeNode where
  "example_vendor =
     TreeNode ''vendor'' ''Vendor'' ''Vendor-ar'' ''select'' True
       [TreeOption ''fortigate'' ''Fortigate'' ''Fortigate-ar'' (Some example_cpu)]"

definition example_addon :: Addon where
  "example_addon =
     \<lparr>id_Addon = ''firewall'', name = ''Firewall'', nameAr = ''Firewall-ar'', maxInstances = 4,
      itemChoiceKey = ''firewall'', pricingKey = ''VF_VM_FIREWALL'', tree = example_vendor\<rparr>"

definition example_product4 :: Product where
  "example_product4 =
     \<lparr>id_Product = ''8800190627841'', addonType = ''firewall'',
      matchCriteria = [(''vendor'', ''fortigate''), (''cpu'', ''4-cpu'')]\<rparr>"

definition example_product2 :: Product where
  "example_product2 =
     \<lparr>id_Product = ''8796158984193'', addonType = ''firewall'',
      matchCriteria = [(''vendor'', ''fortigate''), (''cpu'', ''2-cpu'')]\<rparr>"

definition example_doc :: "Addon list option \<Rightarrow> Product list option \<Rightarrow> ProductData" where
  "example_doc as ps =
     \<lparr>attributes = \<lparr>controlType = ''addon'', configGroupName = ''firewall'',
                     addons = as, products = ps\<rparr>\<rparr>"

text \<open>
  Two products that collide with the first: one with its pairs in the other order, one
  with its id.
\<close>

definition example_product4b :: Product where
  "example_product4b =
     \<lparr>id_Product = ''01HE1D78EC698B5C41F4A889'', addonType = ''firewall'',
      matchCriteria = [(''cpu'', ''4-cpu''), (''vendor'', ''fortigate'')]\<rparr>"

definition example_product4c :: Product where
  "example_product4c =
     \<lparr>id_Product = ''8800190627841'', addonType = ''firewall'',
      matchCriteria = [(''vendor'', ''fortigate''), (''cpu'', ''8-cpu'')]\<rparr>"


text \<open>
  A product of an addon that no document registers, the catalog of the three products,
  and two documents to initialize the enriched service with one after the other.
\<close>

definition example_orphan :: Product where
  "example_orphan =
     \<lparr>id_Product = ''01HE1D78EC698B5C41F4A889'', addonType = ''waf'',
      matchCriteria = [(''vendor'', ''f5'')]\<rparr>"

definition example_catalog :: ProductData where
  "example_catalog =
     example_doc (Some [example_addon]) (Some [example_product4, example_product2, example_orphan])"

definition example_old :: ProductData where
  "example_old = example_doc (Some [example_addon]) (Some [example_product4])"

definition example_new :: ProductData where
  "example_new = example_doc None (Some [example_product2])"

text \<open>A document with an empty addons sequence and no products sequence.\<close>

definition example_no_products :: ProductData where
  "example_no_products = example_doc (Some []) None"

text \<open>The products of a document, none when the sequence is missing.\<close>

definition catalog :: "ProductData \<Rightarrow> Product list" where
  "catalog d = (case products (attributes d) of None \<Rightarrow> [] | Some ps \<Rightarrow> ps)"

text \<open>The addons of a document, none when the sequence is missing.\<close>

definition addon_list :: "ProductData \<Rightarrow> Addon list" where
  "addon_list d = (case addons (attributes d) of None \<Rightarrow> [] | Some as \<Rightarrow> as)"

text \<open>The products sequence of the document the enriched service holds, if any.\<close>

definition document_products :: "ProductLookupService_ng \<Rightarrow> Product list option" where
  "document_products s =
     (case data_ng s of None \<Rightarrow> None | Some d \<Rightarrow> products (attributes d))"

text \<open>
  Criteria no key of which holds a separator and no value of which holds \<open>|\<close>.
\<close>

definition delimiter_free :: "MatchCriteria \<Rightarrow> bool" where
  "delimiter_free criteria =
     list_all (\<lambda>(k, v). CHR ''|'' \<notin> set k \<and> CHR '':'' \<notin> set k \<and> CHR ''|'' \<notin> set v) criteria"

section \<open>Maps built by repeated insertion\<close>

lemma map_of_Map_set: "map_of (Map_set m k v) = (map_of m)(k \<mapsto> v)"
  by (induction m k v rule: Map_set.induct) (auto simp: fun_eq_iff)

lemma keys_Map_set:
  "map fst (Map_set m k v) = (if k \<in> fst ` set m then map fst m else map fst m @ [k])"
  by (induction m k v rule: Map_set.induct) auto

lemma distinct_Map_set: "distinct (map fst m) \<Longrightarrow> distinct (map fst (Map_set m k v))"
  by (simp add: keys_Map_set)

text \<open>After a run of insertions a key holds what the last insertion under it stored.\<close>

lemma map_of_fold_Map_set:
  "map_of (fold (\<lambda>p m. Map_set m (f p) (g p)) ps m) k =
     (case find (\<lambda>p. f p = k) (rev ps) of None \<Rightarrow> map_of m k | Some p \<Rightarrow> Some (g p))"
proof (induction ps rule: rev_induct)
  case Nil
  show ?case by simp
next
  case (snoc x xs)
  then show ?case by (simp add: map_of_Map_set)
qed

lemma distinct_keys_fold_Map_set:
  "distinct (map fst m) \<Longrightarrow> distinct (map fst (fold (\<lambda>p m. Map_set m (f p) (g p)) ps m))"
  by (induction ps arbitrary: m) (simp_all add: distinct_Map_set)

lemma fold_Map_set_fresh:
  "distinct (map f ps) \<Longrightarrow> set (map f ps) \<inter> fst ` set m = {} \<Longrightarrow>
     fold (\<lambda>p m. Map_set m (f p) (g p)) ps m = m @ map (\<lambda>p. (f p, g p)) ps"
proof (induction ps arbitrary: m)
  case Nil
  show ?case by simp
next
  case (Cons p ps)
  have fresh: "Map_set m (f p) (g p) = m @ [(f p, g p)]"
    using Cons.prems(2) by (induction m) auto
  have "set (map f ps) \<inter> fst ` set (m @ [(f p, g p)]) = {}"
    using Cons.prems by auto
  with Cons.IH [of "m @ [(f p, g p)]"] Cons.prems(1) fresh show ?case by simp
qed

lemma find_distinct_key:
  "distinct (map f xs) \<Longrightarrow> x \<in> set xs \<Longrightarrow> find (\<lambda>p. f p = f x) xs = Some x"
  by (induction xs) (auto simp: rev_image_eqI)

lemma find_last_wins:
  "\<forall>p\<in>set ys. f p \<noteq> k \<Longrightarrow> f q = k \<Longrightarrow> find (\<lambda>p. f p = k) (rev (xs @ q # ys)) = Some q"
  by (induction ys rule: rev_induct) auto

section \<open>The plain service after construction\<close>

lemma criteriaToProductId_fold:
  "criteriaToProductId (fold register ps s) =
     fold (\<lambda>p m. Map_set m (generateCriteriaKey (matchCriteria p)) (id_Product p)) ps
       (criteriaToProductId s)"
  by (induction ps arbitrary: s) (simp_all add: register_def)

lemma productIdToCriteria_fold:
  "productIdToCriteria (fold register ps s) =
     fold (\<lambda>p m. Map_set m (id_Product p) (matchCriteria p)) ps (productIdToCriteria s)"
  by (induction ps arbitrary: s) (simp_all add: register_def)

lemma getProductIdByCriteria_constructor:
  "getProductIdByCriteria (constructor d) c =
     map_option id_Product
       (find (\<lambda>p. generateCriteriaKey (matchCriteria p) = generateCriteriaKey c) (rev (catalog d)))"
  by (simp add: getProductIdByCriteria_def constructor_def initialize_def catalog_def Map_get_def
      criteriaToProductId_fold map_of_fold_Map_set split: option.splits)

lemma getCriteriaByProductId_constructor:
  "getCriteriaByProductId (constructor d) i =
     map_option matchCriteria (find (\<lambda>p. id_Product p = i) (rev (catalog d)))"
  by (simp add: getCriteriaByProductId_def constructor_def initialize_def catalog_def Map_get_def
      productIdToCriteria_fold map_of_fold_Map_set split: option.splits)

text \<open>
  Claim C1. When no two products of the document have the same canonical key, looking up
  the criteria of any product of the document gives that product's id.
\<close>

theorem criteria_to_id_roundtrip:
  assumes "products (attributes d) = Some ps"
    and "distinct (map (\<lambda>p. generateCriteriaKey (matchCriteria p)) ps)"
    and "P \<in> set ps"
  shows "getProductIdByCriteria (constructor d) (matchCriteria P) = Some (id_Product P)"
proof -
  have "distinct (map (\<lambda>p. generateCriteriaKey (matchCriteria p)) (rev ps))"
    using assms(2) by (simp add: rev_map [symmetric])
  moreover have "P \<in> set (rev ps)" using assms(3) by simp
  ultimately have
    "find (\<lambda>p. generateCriteriaKey (matchCriteria p) = generateCriteriaKey (matchCriteria P))
       (rev ps) = Some P"
    by (rule find_distinct_key)
  then show ?thesis
    using assms(1) by (simp add: getProductIdByCriteria_constructor catalog_def)
qed

theorem criteria_to_id_roundtrip_witness:
  "distinct (map (\<lambda>p. generateCriteriaKey (matchCriteria p)) [example_product4, example_product2])
   \<and> getProductIdByCriteria
        (constructor (example_doc None (Some [example_product4, example_product2])))
        [(''vendor'', ''fortigate''), (''cpu'', ''2-cpu'')] = Some ''8796158984193''"
proof -
  have d: "distinct (map (\<lambda>p. generateCriteriaKey (matchCriteria p))
             [example_product4, example_product2])"
    by (simp add: example_product4_def example_product2_def generateCriteriaKey_def
        Object_keys_def template_def)
  have p: "products (attributes (example_doc None (Some [example_product4, example_product2])))
             = Some [example_product4, example_product2]"
    by (simp add: example_doc_def)
  have "example_product2 \<in> set [example_product4, example_product2]" by simp
  from criteria_to_id_roundtrip [OF p d this] d show ?thesis
    by (simp add: example_product2_def)
qed

section \<open>The key codec: insertion order\<close>

lemma sort_keys_eq:
  assumes "distinct (map fst c1)" "distinct (map fst c2)" "set c1 = set c2"
  shows "sort (map fst c1) = sort (map fst c2)"
proof (rule sorted_distinct_set_unique)
  show "set (sort (map fst c1)) = set (sort (map fst c2))" using assms(3) by simp
qed (simp_all add: assms)

lemma generateCriteriaKey_perm:
  assumes "distinct (map fst c1)" "distinct (map fst c2)" "set c1 = set c2"
  shows "generateCriteriaKey c1 = generateCriteriaKey c2"
proof -
  have "map_of c1 = map_of c2"
    using assms by (simp add: map_of_inject_set)
  then show ?thesis
    using sort_keys_eq [OF assms] by (simp add: generateCriteriaKey_def Object_keys_def)
qed

lemma map_insort_key: "map f (insort_key f x xs) = insort (f x) (map f xs)"
  by (induction xs) simp_all

lemma map_fst_sort_key: "map fst (sort_key fst c) = sort (map fst c)"
  by (induction c) (simp_all add: map_insort_key)

lemma generateCriteriaKey_sorted_pairs:
  assumes "distinct (map fst c)"
  shows "generateCriteriaKey c = join ''|'' (map (\<lambda>(k, v). k @ '':'' @ v) (sort_key fst c))"
proof -
  have "map (\<lambda>key. key @ '':'' @ template (map_of c key)) (map fst (sort_key fst c)) =
        map (\<lambda>(k, v). k @ '':'' @ v) (sort_key fst c)"
    using assms by (auto simp: template_def)
  then show ?thesis
    by (simp add: generateCriteriaKey_def Object_keys_def map_fst_sort_key)
qed

lemma generateCriteriaKey_empty: "generateCriteriaKey [] = []"
  by (simp add: generateCriteriaKey_def Object_keys_def)

text \<open>
  Claim C2. Two criteria objects with the same key-value pairs, whatever the order the
  pairs were inserted in, have the same canonical key; the key is the \<open>key:value\<close> pairs
  joined with \<open>|\<close> in the order of their sorted keys; the object with no pair has the
  empty key.
\<close>

theorem generateCriteriaKey_canonical:
  "(distinct (map fst c1) \<and> distinct (map fst c2) \<and> set c1 = set c2
      \<longrightarrow> generateCriteriaKey c1 = generateCriteriaKey c2)
   \<and> (distinct (map fst c)
      \<longrightarrow> generateCriteriaKey c = join ''|'' (map (\<lambda>(k, v). k @ '':'' @ v) (sort_key fst c))
          \<and> sorted (map fst (sort_key fst c)) \<and> set (sort_key fst c) = set c)
   \<and> generateCriteriaKey [] = []"
  using generateCriteriaKey_perm [of c1 c2] generateCriteriaKey_sorted_pairs [of c]
  by (simp add: generateCriteriaKey_empty)

theorem generateCriteriaKey_canonical_witness:
  "generateCriteriaKey [(''vendor'', ''fortigate''), (''cpu'', ''4-cpu''), (''license'', ''utp'')] =
     generateCriteriaKey [(''license'', ''utp''), (''vendor'', ''fortigate''), (''cpu'', ''4-cpu'')]
   \<and> generateCriteriaKey [(''vendor'', ''fortigate''), (''cpu'', ''4-cpu''), (''license'', ''utp'')] =
     ''cpu:4-cpu|license:utp|vendor:fortigate''"
proof -
  let ?a = "[(''vendor'', ''fortigate''), (''cpu'', ''4-cpu''), (''license'', ''utp'')]"
  let ?b = "[(''license'', ''utp''), (''vendor'', ''fortigate''), (''cpu'', ''4-cpu'')]"
  have h: "distinct (map fst ?a) \<and> distinct (map fst ?b) \<and> set ?a = set ?b"
    by auto
  have "generateCriteriaKey ?a = generateCriteriaKey ?b"
    using generateCriteriaKey_canonical [of ?a ?b ?a] h by blast
  moreover have "generateCriteriaKey ?a = ''cpu:4-cpu|license:utp|vendor:fortigate''"
    by (simp add: generateCriteriaKey_def Object_keys_def template_def)
  ultimately show ?thesis by (rule conjI)
qed

text \<open>
  Claim C9. The canonical key is not injective: a value that holds the two separators
  makes one pair read as two.
\<close>

theorem generateCriteriaKey_collision:
  "\<exists>c1 c2. distinct (map fst c1) \<and> distinct (map fst c2) \<and> map_of c1 \<noteq> map_of c2 \<and>
     CHR ''|'' \<in> set (concat (map snd c1)) \<and> CHR '':'' \<in> set (concat (map snd c1)) \<and>
     generateCriteriaKey c1 = generateCriteriaKey c2"
proof (intro exI conjI)
  show "generateCriteriaKey [(''a'', ''1|b:2'')] = generateCriteriaKey [(''a'', ''1''), (''b'', ''2'')]"
    by (simp add: generateCriteriaKey_def Object_keys_def template_def)
  show "map_of [(''a'', ''1|b:2'')] \<noteq> map_of [(''a'', ''1''), (''b'', ''2'')]"
  proof
    assume "map_of [(''a'', ''1|b:2'')] = map_of [(''a'', ''1''), (''b'', ''2'')]"
    then have "map_of [(''a'', ''1|b:2'')] ''b'' = map_of [(''a'', ''1''), (''b'', ''2'')] ''b''"
      by (rule arg_cong)
    then show False by simp
  qed
qed simp_all

section \<open>Duplicates in the document\<close>

text \<open>
  Claim C7. Loading never fails, and of several products with one canonical key, or with
  one id, the one listed last is the one the lookups return: a product \<open>Q\<close> that no later
  product of the document shares its key with is what its criteria resolve to, whatever
  stands before it, and likewise for its id.
\<close>

theorem last_product_wins:
  assumes "products (attributes d) = Some (xs @ Q # ys)"
  shows "((\<forall>p\<in>set ys. generateCriteriaKey (matchCriteria p) \<noteq> generateCriteriaKey (matchCriteria Q))
           \<longrightarrow> getProductIdByCriteria (constructor d) (matchCriteria Q) = Some (id_Product Q))
       \<and> ((\<forall>p\<in>set ys. id_Product p \<noteq> id_Product Q)
           \<longrightarrow> getCriteriaByProductId (constructor d) (id_Product Q) = Some (matchCriteria Q))"
  using assms
  by (simp add: getProductIdByCriteria_constructor getCriteriaByProductId_constructor
      catalog_def find_last_wins del: rev_append rev.simps)

theorem last_product_wins_witness:
  "generateCriteriaKey (matchCriteria example_product4) =
     generateCriteriaKey (matchCriteria example_product4b)
   \<and> getProductIdByCriteria
       (constructor (example_doc None (Some [example_product4, example_product4b])))
       (matchCriteria example_product4) = Some ''01HE1D78EC698B5C41F4A889''
   \<and> id_Product example_product4 = id_Product example_product4c
   \<and> getCriteriaByProductId
       (constructor (example_doc None (Some [example_product4, example_product4c])))
       ''8800190627841'' = Some [(''vendor'', ''fortigate''), (''cpu'', ''8-cpu'')]"
proof -
  have k: "generateCriteriaKey (matchCriteria example_product4) =
     generateCriteriaKey (matchCriteria example_product4b)"
    by (simp add: example_product4_def example_product4b_def generateCriteriaKey_def
        Object_keys_def template_def)
  have i: "id_Product example_product4 = id_Product example_product4c"
    by (simp add: example_product4_def example_product4c_def)
  have "getProductIdByCriteria
       (constructor (example_doc None (Some [example_product4, example_product4b])))
       (matchCriteria example_product4b) = Some (id_Product example_product4b)"
    using last_product_wins [of "example_doc None (Some [example_product4, example_product4b])"
        "[example_product4]" example_product4b "[]"]
    by (simp add: example_doc_def)
  then have a: "getProductIdByCriteria
       (constructor (example_doc None (Some [example_product4, example_product4b])))
       (matchCriteria example_product4) = Some ''01HE1D78EC698B5C41F4A889''"
    using k by (simp add: getProductIdByCriteria_def example_product4b_def)
  have "getCriteriaByProductId
       (constructor (example_doc None (Some [example_product4, example_product4c])))
       (id_Product example_product4c) = Some (matchCriteria example_product4c)"
    using last_product_wins [of "example_doc None (Some [example_product4, example_product4c])"
        "[example_product4]" example_product4c "[]"]
    by (simp add: example_doc_def)
  then have b: "getCriteriaByProductId
       (constructor (example_doc None (Some [example_product4, example_product4c])))
       ''8800190627841'' = Some [(''vendor'', ''fortigate''), (''cpu'', ''8-cpu'')]"
    by (simp add: example_product4c_def)
  from k a i b show ?thesis by (intro conjI)
qed

section \<open>Searching by partial criteria\<close>

lemma all_match_iff:
  "all_match partialCriteria criteria \<longleftrightarrow> (\<forall>(k, v)\<in>set partialCriteria. map_of criteria k = Some v)"
  by (induction partialCriteria criteria rule: all_match.induct) auto

lemma fold_push_filter:
  "fold (\<lambda>(i, c) results. if P c then results @ [(i, c)] else results) xs acc =
     acc @ filter (\<lambda>e. P (snd e)) xs"
  by (induction xs arbitrary: acc) auto

lemma searchByPartialCriteria_filter:
  "searchByPartialCriteria s partialCriteria =
     filter (\<lambda>e. all_match partialCriteria (snd e)) (productIdToCriteria s)"
  by (simp add: searchByPartialCriteria_def fold_push_filter)

lemma productIdToCriteria_constructor:
  "productIdToCriteria (constructor d) =
     fold (\<lambda>p m. Map_set m (id_Product p) (matchCriteria p)) (catalog d) []"
  by (simp add: constructor_def initialize_def catalog_def productIdToCriteria_fold
      split: option.splits)

lemma productIdToCriteria_distinct_ids:
  "distinct (map id_Product (catalog d)) \<Longrightarrow>
     productIdToCriteria (constructor d) = map (\<lambda>p. (id_Product p, matchCriteria p)) (catalog d)"
  by (simp add: productIdToCriteria_constructor fold_Map_set_fresh)

lemma distinct_productIdToCriteria:
  "distinct (map fst (productIdToCriteria (constructor d)))"
  by (simp add: productIdToCriteria_constructor distinct_keys_fold_Map_set)

lemma key_set_Map_set: "fst ` set (Map_set m k v) = insert k (fst ` set m)"
  by (induction m k v rule: Map_set.induct) auto

lemma keys_fold_Map_set:
  "set (map fst (fold (\<lambda>p m. Map_set m (f p) (g p)) ps m)) = set (map fst m) \<union> set (map f ps)"
  by (induction ps arbitrary: m) (simp_all add: key_set_Map_set)

text \<open>
  Claim C3. The search returns the stored entries whose criteria hold every pair of the
  partial criteria, each id at most once; a product the criteria of which lack a key of
  the partial criteria is left out, further keys of a product play no role. When the ids
  of the document are pairwise distinct the result is the products of the document that
  agree, in document order, and with no partial criteria it is all of them.
\<close>

theorem searchByPartialCriteria_exact:
  "set (searchByPartialCriteria (constructor d) partialCriteria) =
     {(i, c). getCriteriaByProductId (constructor d) i = Some c
              \<and> (\<forall>(k, v)\<in>set partialCriteria. map_of c k = Some v)}
   \<and> distinct (map fst (searchByPartialCriteria (constructor d) partialCriteria))
   \<and> (distinct (map id_Product (catalog d)) \<longrightarrow>
        searchByPartialCriteria (constructor d) partialCriteria =
          map (\<lambda>p. (id_Product p, matchCriteria p))
            (filter (\<lambda>p. \<forall>(k, v)\<in>set partialCriteria. map_of (matchCriteria p) k = Some v)
               (catalog d)))
   \<and> searchByPartialCriteria (constructor d) [] = productIdToCriteria (constructor d)
   \<and> set (map fst (searchByPartialCriteria (constructor d) [])) = set (map id_Product (catalog d))
   \<and> (distinct (map id_Product (catalog d)) \<longrightarrow>
        searchByPartialCriteria (constructor d) [] =
          map (\<lambda>p. (id_Product p, matchCriteria p)) (catalog d))"
proof (intro conjI impI)
  have dk: "distinct (map fst (productIdToCriteria (constructor d)))"
    by (rule distinct_productIdToCriteria)
  show "set (searchByPartialCriteria (constructor d) partialCriteria) =
     {(i, c). getCriteriaByProductId (constructor d) i = Some c
              \<and> (\<forall>(k, v)\<in>set partialCriteria. map_of c k = Some v)}"
    using dk
    by (auto simp: searchByPartialCriteria_filter all_match_iff getCriteriaByProductId_def
        Map_get_def dest: map_of_SomeD)
  show "distinct (map fst (searchByPartialCriteria (constructor d) partialCriteria))"
    using dk by (simp add: searchByPartialCriteria_filter distinct_map_filter)
  show e: "searchByPartialCriteria (constructor d) [] = productIdToCriteria (constructor d)"
    by (simp add: searchByPartialCriteria_filter)
  show "set (map fst (searchByPartialCriteria (constructor d) [])) = set (map id_Product (catalog d))"
    unfolding e productIdToCriteria_constructor keys_fold_Map_set by simp
next
  assume "distinct (map id_Product (catalog d))"
  then show "searchByPartialCriteria (constructor d) partialCriteria =
          map (\<lambda>p. (id_Product p, matchCriteria p))
            (filter (\<lambda>p. \<forall>(k, v)\<in>set partialCriteria. map_of (matchCriteria p) k = Some v)
               (catalog d))"
    by (simp add: searchByPartialCriteria_filter productIdToCriteria_distinct_ids all_match_iff
        filter_map comp_def)
next
  assume "distinct (map id_Product (catalog d))"
  then show "searchByPartialCriteria (constructor d) [] =
          map (\<lambda>p. (id_Product p, matchCriteria p)) (catalog d)"
    by (simp add: searchByPartialCriteria_filter productIdToCriteria_distinct_ids)
qed


theorem searchByPartialCriteria_exact_witness:
  "distinct (map id_Product (catalog (example_doc None (Some [example_product4, example_product2]))))
   \<and> searchByPartialCriteria
        (constructor (example_doc None (Some [example_product4, example_product2])))
        [(''cpu'', ''4-cpu'')] =
       [(''8800190627841'', [(''vendor'', ''fortigate''), (''cpu'', ''4-cpu'')])]
   \<and> searchByPartialCriteria
        (constructor (example_doc None (Some [example_product4, example_product2])))
        [(''license'', ''utp'')] = []
   \<and> searchByPartialCriteria
        (constructor (example_doc None (Some [example_product4, example_product2]))) [] =
       [(''8800190627841'', [(''vendor'', ''fortigate''), (''cpu'', ''4-cpu'')]),
        (''8796158984193'', [(''vendor'', ''fortigate''), (''cpu'', ''2-cpu'')])]"
proof -
  let ?d = "example_doc None (Some [example_product4, example_product2])"
  have c: "catalog ?d = [example_product4, example_product2]"
    by (simp add: catalog_def example_doc_def)
  have d: "distinct (map id_Product (catalog ?d))"
    unfolding c by (simp add: example_product4_def example_product2_def)
  have 1: "searchByPartialCriteria (constructor ?d) [(''cpu'', ''4-cpu'')] =
       [(''8800190627841'', [(''vendor'', ''fortigate''), (''cpu'', ''4-cpu'')])]"
    using searchByPartialCriteria_exact [of ?d "[(''cpu'', ''4-cpu'')]", unfolded c] d [unfolded c]
    by (simp add: example_product4_def example_product2_def)
  have 2: "searchByPartialCriteria (constructor ?d) [(''license'', ''utp'')] = []"
    using searchByPartialCriteria_exact [of ?d "[(''license'', ''utp'')]", unfolded c] d [unfolded c]
    by (simp add: example_product4_def example_product2_def)
  have 3: "searchByPartialCriteria (constructor ?d) [] =
       [(''8800190627841'', [(''vendor'', ''fortigate''), (''cpu'', ''4-cpu'')]),
        (''8796158984193'', [(''vendor'', ''fortigate''), (''cpu'', ''2-cpu'')])]"
    using searchByPartialCriteria_exact [of ?d "[]", unfolded c] d [unfolded c]
    by (simp add: example_product4_def example_product2_def)
  from d 1 2 3 show ?thesis by (intro conjI)
qed

section \<open>The enriched service after initialization\<close>

lemma find_None_keys: "k \<notin> f ` set xs \<Longrightarrow> find (\<lambda>p. f p = k) xs = None"
  by (induction xs) auto

lemma criteriaToProductId_ng_fold:
  "criteriaToProductId_ng (fold register_ng ps s) =
     fold (\<lambda>p m. Map_set m (generateCriteriaKey (matchCriteria p)) (id_Product p)) ps
       (criteriaToProductId_ng s)"
  by (induction ps arbitrary: s) (simp_all add: register_ng_def)

lemma productIdToCriteria_ng_fold:
  "productIdToCriteria_ng (fold register_ng ps s) =
     fold (\<lambda>p m. Map_set m (id_Product p) (matchCriteria p)) ps (productIdToCriteria_ng s)"
  by (induction ps arbitrary: s) (simp_all add: register_ng_def)

lemma addonsMap_fold_register_ng: "addonsMap (fold register_ng ps s) = addonsMap s"
  by (induction ps arbitrary: s) (simp_all add: register_ng_def)

lemma data_ng_fold_register_ng: "data_ng (fold register_ng ps s) = data_ng s"
  by (induction ps arbitrary: s) (simp_all add: register_ng_def)

lemma addonsMap_fold_register_addon:
  "addonsMap (fold register_addon as s) = fold (\<lambda>a m. Map_set m (id_Addon a) a) as (addonsMap s)"
  by (induction as arbitrary: s) (simp_all add: register_addon_def)

lemma fold_register_addon_other:
  "criteriaToProductId_ng (fold register_addon as s) = criteriaToProductId_ng s"
  "productIdToCriteria_ng (fold register_addon as s) = productIdToCriteria_ng s"
  "data_ng (fold register_addon as s) = data_ng s"
  by (induction as arbitrary: s) (simp_all add: register_addon_def)

lemma criteriaToProductId_initialize_ng:
  "criteriaToProductId_ng (initialize_ng s d) =
     fold (\<lambda>p m. Map_set m (generateCriteriaKey (matchCriteria p)) (id_Product p)) (catalog d)
       (criteriaToProductId_ng s)"
  by (simp add: initialize_ng_def Let_def catalog_def criteriaToProductId_ng_fold fold_register_addon_other
      split: option.splits)

lemma productIdToCriteria_initialize_ng:
  "productIdToCriteria_ng (initialize_ng s d) =
     fold (\<lambda>p m. Map_set m (id_Product p) (matchCriteria p)) (catalog d) (productIdToCriteria_ng s)"
  by (simp add: initialize_ng_def Let_def catalog_def productIdToCriteria_ng_fold fold_register_addon_other
      split: option.splits)

lemma addonsMap_initialize_ng:
  "addonsMap (initialize_ng s d) =
     fold (\<lambda>a m. Map_set m (id_Addon a) a) (addon_list d) (addonsMap s)"
  by (simp add: initialize_ng_def Let_def addon_list_def addonsMap_fold_register_ng
      addonsMap_fold_register_addon split: option.splits)

lemma data_ng_initialize_ng: "data_ng (initialize_ng s d) = Some d"
  by (simp add: initialize_ng_def Let_def data_ng_fold_register_ng fold_register_addon_other
      split: option.splits)

section \<open>The key codec: criteria without separators\<close>

text \<open>
  Where no key and no value holds a separator the canonical key can be read back:
  criteria with the same key have the same pairs.
\<close>

lemma split_unique:
  assumes "c \<notin> set x" "c \<notin> set y"
    and "r = [] \<or> hd r = c" "r' = [] \<or> hd r' = c"
    and "x @ r = y @ r'"
  shows "x = y \<and> r = r'"
proof -
  have tw: "takeWhile (\<lambda>a. a \<noteq> c) (u @ t) = u" if "c \<notin> set u" "t = [] \<or> hd t = c" for u t
  proof (cases t)
    case Nil
    with that show ?thesis by (auto simp: takeWhile_eq_all_conv)
  next
    case (Cons a t')
    with that have "a = c" by simp
    with Cons that(1) show ?thesis by (auto simp: takeWhile_tail takeWhile_eq_all_conv)
  qed
  have "x = takeWhile (\<lambda>a. a \<noteq> c) (x @ r)" using tw [OF assms(1,3)] by simp
  also have "\<dots> = takeWhile (\<lambda>a. a \<noteq> c) (y @ r')" using assms(5) by simp
  also have "\<dots> = y" using tw [OF assms(2,4)] .
  finally have "x = y" .
  with assms(5) show ?thesis by simp
qed

lemma join_Cons: "join sep (x # xs) = x @ concat (map (\<lambda>y. sep @ y) xs)"
  by (induction xs arbitrary: x) simp_all

lemma tail_inj:
  assumes "\<forall>x\<in>set xs. c \<notin> set x" "\<forall>y\<in>set ys. c \<notin> set y"
    and "concat (map (\<lambda>y. [c] @ y) xs) = concat (map (\<lambda>y. [c] @ y) ys)"
  shows "xs = ys"
  using assms
proof (induction xs arbitrary: ys)
  case Nil
  then show ?case by (cases ys) simp_all
next
  case (Cons x xs)
  show ?case
  proof (cases ys)
    case Nil
    with Cons.prems show ?thesis by simp
  next
    case (Cons y ys')
    let ?r = "concat (map (\<lambda>y. [c] @ y) xs)" and ?r' = "concat (map (\<lambda>y. [c] @ y) ys')"
    have e: "x @ ?r = y @ ?r'" using Cons.prems(3) Cons by simp
    have "?r = [] \<or> hd ?r = c" by (cases xs) simp_all
    moreover have "?r' = [] \<or> hd ?r' = c" by (cases ys') simp_all
    moreover have "c \<notin> set x" "c \<notin> set y" using Cons.prems(1,2) Cons by simp_all
    ultimately have "x = y \<and> ?r = ?r'" using e by (intro split_unique) 
    moreover from this have "xs = ys'"
      using Cons.prems(1,2) Cons by (intro Cons.IH) simp_all
    ultimately show ?thesis using Cons by simp
  qed
qed

lemma join_inj:
  assumes "\<forall>x\<in>set xs. c \<notin> set x \<and> x \<noteq> []" "\<forall>y\<in>set ys. c \<notin> set y \<and> y \<noteq> []"
    and "join [c] xs = join [c] ys"
  shows "xs = ys"
proof (cases xs)
  case Nil
  show ?thesis
  proof (cases ys)
    case (Cons y ys')
    with Nil assms(2,3) show ?thesis by (simp add: join_Cons)
  qed (simp add: Nil)
next
  case (Cons x xs')
  show ?thesis
  proof (cases ys)
    case Nil
    with Cons assms(1,3) show ?thesis by (simp add: join_Cons)
  next
    case (Cons y ys')
    let ?r = "concat (map (\<lambda>y. [c] @ y) xs')" and ?r' = "concat (map (\<lambda>y. [c] @ y) ys')"
    have e: "x @ ?r = y @ ?r'"
      using assms(3) \<open>xs = x # xs'\<close> Cons by (simp add: join_Cons)
    have "?r = [] \<or> hd ?r = c" by (cases xs') simp_all
    moreover have "?r' = [] \<or> hd ?r' = c" by (cases ys') simp_all
    moreover have "c \<notin> set x" "c \<notin> set y" using assms(1,2) \<open>xs = x # xs'\<close> Cons by simp_all
    ultimately have xy: "x = y \<and> ?r = ?r'" using e by (intro split_unique)
    then have "xs' = ys'"
      using assms(1,2) \<open>xs = x # xs'\<close> Cons by (intro tail_inj [of xs' c ys']) simp_all
    with xy show ?thesis using \<open>xs = x # xs'\<close> Cons by simp
  qed
qed


lemma segment_inj:
  assumes "CHR '':'' \<notin> set k" "CHR '':'' \<notin> set k'" and "k @ '':'' @ v = k' @ '':'' @ v'"
  shows "k = k' \<and> v = v'"
proof -
  have "k = k' \<and> '':'' @ v = '':'' @ v'"
    using assms by (intro split_unique [of "CHR '':''"]) simp_all
  then show ?thesis by simp
qed

lemma generateCriteriaKey_inj:
  assumes d1: "distinct (map fst c1)" and d2: "distinct (map fst c2)"
    and f1: "delimiter_free c1" and f2: "delimiter_free c2"
    and eq: "generateCriteriaKey c1 = generateCriteriaKey c2"
  shows "set c1 = set c2"
proof -
  let ?seg = "\<lambda>(k, v). k @ '':'' @ v"
  let ?l1 = "sort_key fst c1" and ?l2 = "sort_key fst c2"
  have free: "CHR ''|'' \<notin> set (?seg e) \<and> ?seg e \<noteq> []"
    if "e \<in> set c" "delimiter_free c" for e c
    using that by (auto simp: delimiter_free_def list_all_iff)
  have "join ''|'' (map ?seg ?l1) = join ''|'' (map ?seg ?l2)"
    using eq by (simp add: generateCriteriaKey_sorted_pairs d1 d2)
  moreover have "\<forall>x\<in>set (map ?seg ?l1). CHR ''|'' \<notin> set x \<and> x \<noteq> []"
    using free [OF _ f1] by auto
  moreover have "\<forall>x\<in>set (map ?seg ?l2). CHR ''|'' \<notin> set x \<and> x \<noteq> []"
    using free [OF _ f2] by auto
  ultimately have m: "map ?seg ?l1 = map ?seg ?l2"
    by (intro join_inj [of _ "CHR ''|''"]) simp_all
  have "inj_on ?seg (set ?l1 \<union> set ?l2)"
  proof (rule inj_onI)
    fix a b
    assume a: "a \<in> set ?l1 \<union> set ?l2" and b: "b \<in> set ?l1 \<union> set ?l2" and e: "?seg a = ?seg b"
    have "CHR '':'' \<notin> set (fst a)" "CHR '':'' \<notin> set (fst b)"
      using a b f1 f2 by (auto simp: delimiter_free_def list_all_iff)
    with e segment_inj [of "fst a" "fst b" "snd a" "snd b"] show "a = b"
      by (cases a, cases b) simp
  qed
  with m have "?l1 = ?l2" by (simp add: inj_on_map_eq_map)
  then have "set ?l1 = set ?l2" by simp
  then show ?thesis by simp
qed

section \<open>Unknown ids and criteria\<close>

text \<open>
  Claim C8. An id that no product of the document has, and criteria whose canonical key
  no product of the document has, give the absent result; so do criteria that differ in
  their pairs from the criteria of every product, where no key or value holds a
  separator. The plain service has no operation that can fault on these paths, and the
  enriched one returns before it reaches one.
\<close>

theorem unknown_is_absent:
  "(i \<notin> set (map id_Product (catalog d)) \<longrightarrow> getCriteriaByProductId (constructor d) i = None)
   \<and> (generateCriteriaKey c \<notin> set (map (\<lambda>p. generateCriteriaKey (matchCriteria p)) (catalog d))
        \<longrightarrow> getProductIdByCriteria (constructor d) c = None)
   \<and> (distinct (map fst c) \<and> delimiter_free c
        \<and> (\<forall>p\<in>set (catalog d). distinct (map fst (matchCriteria p))
              \<and> delimiter_free (matchCriteria p) \<and> set (matchCriteria p) \<noteq> set c)
        \<longrightarrow> getProductIdByCriteria (constructor d) c = None)
   \<and> (i \<notin> set (map id_Product (catalog d))
        \<longrightarrow> getCriteriaByProductId_ng (initialize_ng constructor_ng d) i = Inr None)
   \<and> (generateCriteriaKey c \<notin> set (map (\<lambda>p. generateCriteriaKey (matchCriteria p)) (catalog d))
        \<longrightarrow> getProductIdByCriteria_ng (initialize_ng constructor_ng d) c = None)"
proof -
  have id_absent: "find (\<lambda>p. id_Product p = i) (rev (catalog d)) = None"
    if "i \<notin> set (map id_Product (catalog d))"
    using that by (intro find_None_keys) simp
  have key_absent: "find (\<lambda>p. generateCriteriaKey (matchCriteria p) = generateCriteriaKey c)
                      (rev (catalog d)) = None"
    if "generateCriteriaKey c \<notin> set (map (\<lambda>p. generateCriteriaKey (matchCriteria p)) (catalog d))"
    using that by (intro find_None_keys) simp
  have 1: "getCriteriaByProductId (constructor d) i = None"
    if "i \<notin> set (map id_Product (catalog d))"
    by (simp add: getCriteriaByProductId_constructor id_absent [OF that])
  have 2: "getProductIdByCriteria (constructor d) c = None"
    if "generateCriteriaKey c \<notin> set (map (\<lambda>p. generateCriteriaKey (matchCriteria p)) (catalog d))"
    by (simp add: getProductIdByCriteria_constructor key_absent [OF that])
  have 3: "getProductIdByCriteria (constructor d) c = None"
    if a: "distinct (map fst c) \<and> delimiter_free c
        \<and> (\<forall>p\<in>set (catalog d). distinct (map fst (matchCriteria p))
              \<and> delimiter_free (matchCriteria p) \<and> set (matchCriteria p) \<noteq> set c)"
  proof (rule 2, rule notI)
    assume "generateCriteriaKey c \<in> set (map (\<lambda>p. generateCriteriaKey (matchCriteria p)) (catalog d))"
    then obtain p where p: "p \<in> set (catalog d)"
      and k: "generateCriteriaKey (matchCriteria p) = generateCriteriaKey c"
      by auto
    from a p have "distinct (map fst (matchCriteria p))" "delimiter_free (matchCriteria p)"
      "set (matchCriteria p) \<noteq> set c"
      by simp_all
    moreover from a have "distinct (map fst c)" "delimiter_free c" by simp_all
    ultimately show False using generateCriteriaKey_inj [OF _ _ _ _ k] by simp
  qed
  have 4: "getCriteriaByProductId_ng (initialize_ng constructor_ng d) i = Inr None"
    if "i \<notin> set (map id_Product (catalog d))"
  proof -
    have "Map_get (productIdToCriteria_ng (initialize_ng constructor_ng d)) i = None"
      by (simp add: Map_get_def productIdToCriteria_initialize_ng map_of_fold_Map_set
          id_absent [OF that] constructor_ng_def)
    then show ?thesis by (simp add: getCriteriaByProductId_ng_def)
  qed
  have 5: "getProductIdByCriteria_ng (initialize_ng constructor_ng d) c = None"
    if "generateCriteriaKey c \<notin> set (map (\<lambda>p. generateCriteriaKey (matchCriteria p)) (catalog d))"
    by (simp add: getProductIdByCriteria_ng_def Map_get_def criteriaToProductId_initialize_ng
        map_of_fold_Map_set key_absent [OF that] constructor_ng_def)
  from 1 2 3 4 5 show ?thesis by blast
qed

theorem unknown_is_absent_witness:
  "getCriteriaByProductId
     (constructor (example_doc None (Some [example_product4, example_product2]))) ''42'' = None
   \<and> delimiter_free [(''vendor'', ''paloalto'')]
   \<and> getProductIdByCriteria
     (constructor (example_doc None (Some [example_product4, example_product2])))
     [(''vendor'', ''paloalto'')] = None
   \<and> getCriteriaByProductId_ng
     (initialize_ng constructor_ng (example_doc None (Some [example_product4, example_product2])))
     ''42'' = Inr None
   \<and> getProductIdByCriteria_ng
     (initialize_ng constructor_ng (example_doc None (Some [example_product4, example_product2])))
     [(''vendor'', ''paloalto'')] = None"
proof -
  let ?d = "example_doc None (Some [example_product4, example_product2])"
  let ?c = "[(''vendor'', ''paloalto'')]"
  have c: "catalog ?d = [example_product4, example_product2]"
    by (simp add: catalog_def example_doc_def)
  have i: "''42'' \<notin> set (map id_Product (catalog ?d))"
    unfolding c by (simp add: example_product4_def example_product2_def)
  have k: "generateCriteriaKey ?c
             \<notin> set (map (\<lambda>p. generateCriteriaKey (matchCriteria p)) (catalog ?d))"
    unfolding c
    by (simp add: example_product4_def example_product2_def generateCriteriaKey_def
        Object_keys_def template_def)
  have f: "delimiter_free ?c" by (simp add: delimiter_free_def)
  have s: "distinct (map fst ?c) \<and> delimiter_free ?c
        \<and> (\<forall>p\<in>set (catalog ?d). distinct (map fst (matchCriteria p))
              \<and> delimiter_free (matchCriteria p) \<and> set (matchCriteria p) \<noteq> set ?c)"
    unfolding c
    by (simp add: delimiter_free_def example_product4_def example_product2_def)
  note t = unknown_is_absent [of "''42''" ?d ?c]
  from t i have 1: "getCriteriaByProductId (constructor ?d) ''42'' = None" by blast
  from t s have 2: "getProductIdByCriteria (constructor ?d) ?c = None" by blast
  from t i have 3: "getCriteriaByProductId_ng (initialize_ng constructor_ng ?d) ''42'' = Inr None"
    by blast
  from t k have 4: "getProductIdByCriteria_ng (initialize_ng constructor_ng ?d) ?c = None"
    by blast
  from 1 f 2 3 4 show ?thesis by (intro conjI)
qed

section \<open>The tree resolver\<close>

lemma fold_max_start: "(a::nat) \<le> fold max xs a"
proof (induction xs arbitrary: a)
  case Nil
  show ?case by simp
next
  case (Cons y ys)
  have "a \<le> max y a" by simp
  also have "max y a \<le> fold max ys (max y a)" by (rule Cons.IH)
  finally show ?case by simp
qed

lemma fold_max_ge: "x \<in> set xs \<Longrightarrow> x \<le> fold max xs (a::nat)"
proof (induction xs arbitrary: a)
  case Nil
  then show ?case by simp
next
  case (Cons y ys)
  show ?case
  proof (cases "x = y")
    case True
    have "y \<le> max y a" by simp
    also have "max y a \<le> fold max ys (max y a)" by (rule fold_max_start)
    finally show ?thesis using True by simp
  next
    case False
    with Cons.prems have "x \<in> set ys" by simp
    then show ?thesis using Cons.IH by simp
  qed
qed

lemma depth_children_less:
  assumes "opt \<in> set (options node)" and "children opt = Some ch"
  shows "depth ch < depth node"
proof -
  have "depth_option opt = depth ch"
    using assms(2) by (cases opt) simp
  moreover have "depth_option opt \<le> fold max (map depth_option (options node)) 0"
    using assms(1) by (intro fold_max_ge) simp
  moreover have "depth node = Suc (fold max (map depth_option (options node)) 0)"
    by (cases node) simp
  ultimately show ?thesis by simp
qed

lemma depth_pos: "0 < depth node"
  by (cases node) simp

lemma traverseTree_fuel_enough:
  "depth node \<le> n \<Longrightarrow> traverseTree_fuel n node criteria selected = Some (traverseTree node criteria selected)"
proof (induction n arbitrary: node selected)
  case 0
  then show ?case using depth_pos [of node] by simp
next
  case (Suc n)
  show ?case
  proof (cases "map_of criteria (id_TreeNode node)")
    case None
    then show ?thesis by (simp add: traverseTree.simps [of node])
  next
    case (Some v)
    show ?thesis
    proof (cases "find (\<lambda>opt. value_TreeOption opt = v) (options node)")
      case None
      with Some show ?thesis by (simp add: traverseTree.simps [of node])
    next
      case found: (Some opt)
      then have m: "opt \<in> set (options node)" by (auto simp: find_Some_iff)
      show ?thesis
      proof (cases "children opt")
        case None
        with Some found show ?thesis by (simp add: traverseTree.simps [of node])
      next
        case ch: (Some ch)
        from depth_children_less [OF m ch] Suc.prems have "depth ch \<le> n" by simp
        from Suc.IH [OF this] Some found ch show ?thesis
          by (simp add: traverseTree.simps [of node])
      qed
    qed
  qed
qed

lemma traverseTree_fuel_sound:
  "traverseTree_fuel n node criteria selected = Some r \<Longrightarrow> r = traverseTree node criteria selected"
proof (induction n arbitrary: node selected)
  case 0
  then show ?case by simp
next
  case (Suc n)
  show ?case
    using Suc.prems Suc.IH
    by (subst traverseTree.simps) (auto simp: Let_def split: option.splits if_splits)
qed















text \<open>
  Claim C10. The resolver terminates: it is a total function, the node of a recursive
  call is a proper subtree of the node of the caller, and a bound of the depth of the
  tree on the nested calls is never reached.
\<close>

theorem traverseTree_terminates:
  "(depth node \<le> n \<longrightarrow>
      traverseTree_fuel n node criteria selected = Some (traverseTree node criteria selected))
   \<and> (traverseTree_fuel n node criteria selected = Some r \<longrightarrow>
        r = traverseTree node criteria selected)
   \<and> (opt \<in> set (options node) \<and> children opt = Some ch \<longrightarrow>
        size ch < size node \<and> depth ch < depth node)"
proof (intro conjI impI)
  assume "depth node \<le> n"
  then show "traverseTree_fuel n node criteria selected = Some (traverseTree node criteria selected)"
    by (rule traverseTree_fuel_enough)
next
  assume "traverseTree_fuel n node criteria selected = Some r"
  then show "r = traverseTree node criteria selected"
    by (rule traverseTree_fuel_sound)
next
  assume a: "opt \<in> set (options node) \<and> children opt = Some ch"
  then have m: "opt \<in> set (options node)" and c: "children opt = Some ch"
    by simp_all
  from m c show "depth ch < depth node"
    by (rule depth_children_less)
  have "size ch < Suc (size opt)"
    using c by (cases opt) simp
  moreover have "size opt \<le> size_list size (options node)"
    using m by (simp add: size_list_estimation')
  moreover have "size_list size (options node) < size node"
    by (cases node) simp
  ultimately show "size ch < size node" by linarith
qed

theorem traverseTree_terminates_witness:
  "depth example_vendor = 2
   \<and> traverseTree_fuel 2 example_vendor [(''vendor'', ''fortigate''), (''cpu'', ''4-cpu'')]
        empty_object =
       Some (traverseTree example_vendor [(''vendor'', ''fortigate''), (''cpu'', ''4-cpu'')]
               empty_object)
   \<and> traverseTree_fuel 1 example_vendor [(''vendor'', ''fortigate''), (''cpu'', ''4-cpu'')]
        empty_object = None"
proof -
  let ?c = "[(''vendor'', ''fortigate''), (''cpu'', ''4-cpu'')]"
  have d: "depth example_vendor = 2"
    by (simp add: example_vendor_def example_cpu_def)
  then have "depth example_vendor \<le> 2" by simp
  with traverseTree_terminates [of example_vendor 2 ?c empty_object]
  have "traverseTree_fuel 2 example_vendor ?c empty_object =
          Some (traverseTree example_vendor ?c empty_object)"
    by blast
  moreover have "traverseTree_fuel 1 example_vendor ?c empty_object = None"
    by (simp add: example_vendor_def)
  ultimately show ?thesis using d by simp
qed

section \<open>The enriched lookup by id\<close>

lemma traverseTree_example4:
  "traverseTree example_vendor [(''vendor'', ''fortigate''), (''cpu'', ''4-cpu'')] empty_object =
     \<lparr>own = [(''vendor'', TreeOption ''fortigate'' ''Fortigate'' ''Fortigate-ar''
                            (Some example_cpu)),
             (''cpu'', TreeOption ''4-cpu'' ''4 CPU'' ''4 CPU-ar'' None)],
      proto = None\<rparr>"
  by (simp add: example_vendor_def example_cpu_def empty_object_def assign_property_def
      traverseTree.simps [of "TreeNode _ _ _ _ _ _"])

lemma example_catalog_state:
  "productIdToCriteria_ng (initialize_ng constructor_ng example_catalog) =
     [(''8800190627841'', [(''vendor'', ''fortigate''), (''cpu'', ''4-cpu'')]),
      (''8796158984193'', [(''vendor'', ''fortigate''), (''cpu'', ''2-cpu'')]),
      (''01HE1D78EC698B5C41F4A889'', [(''vendor'', ''f5'')])]"
  "addonsMap (initialize_ng constructor_ng example_catalog) = [(''firewall'', example_addon)]"
  "catalog example_catalog = [example_product4, example_product2, example_orphan]"
  by (simp_all add: productIdToCriteria_initialize_ng addonsMap_initialize_ng catalog_def
      addon_list_def example_catalog_def example_doc_def constructor_ng_def
      example_product4_def example_product2_def example_orphan_def example_addon_def)

text \<open>
  The enriched lookup, case by case. An id without stored criteria is absent in every
  state. The lookup raises a \<^verbatim>\<open>TypeError\<close> exactly where criteria are stored for the id
  and the service holds no document or a document without products sequence. In a state
  whose document has a products sequence it returns the absent result exactly when the
  id has no stored criteria, or no product of the sequence has the id, or the addon type
  of the first product with the id is no registered addon, and in every other case the
  id, that product's addon type, the stored criteria, the options the resolver selects
  in the addon's tree starting from \<^verbatim>\<open>{}\<close>, and the addon. A service initialized once
  never faults.
\<close>

lemma enriched_lookup_cases:
  "(getCriteriaByProductId_ng s i = Inl TypeError \<longleftrightarrow>
      Map_get (productIdToCriteria_ng s) i \<noteq> None \<and> document_products s = None)
   \<and> (Map_get (productIdToCriteria_ng s) i = None \<longrightarrow> getCriteriaByProductId_ng s i = Inr None)
   \<and> (document_products s = Some ps \<longrightarrow>
        (getCriteriaByProductId_ng s i = Inr None \<longleftrightarrow>
            Map_get (productIdToCriteria_ng s) i = None
            \<or> find (\<lambda>p. id_Product p = i) ps = None
            \<or> (\<exists>p. find (\<lambda>p. id_Product p = i) ps = Some p
                   \<and> Map_get (addonsMap s) (addonType p) = None))
        \<and> (getCriteriaByProductId_ng s i = Inr None
           \<or> (\<exists>mc p a. Map_get (productIdToCriteria_ng s) i = Some mc
                 \<and> find (\<lambda>p. id_Product p = i) ps = Some p
                 \<and> Map_get (addonsMap s) (addonType p) = Some a
                 \<and> getCriteriaByProductId_ng s i =
                     Inr (Some \<lparr>productId = i, addonType_Enriched = addonType p,
                                matchCriteria_Enriched = mc,
                                selectedOptions = traverseTree (tree a) mc empty_object,
                                addon = a\<rparr>))))
   \<and> getCriteriaByProductId_ng (initialize_ng constructor_ng d) i \<noteq> Inl TypeError"
proof (intro conjI impI)
  show "getCriteriaByProductId_ng s i = Inl TypeError \<longleftrightarrow>
      Map_get (productIdToCriteria_ng s) i \<noteq> None \<and> document_products s = None"
    by (auto simp: getCriteriaByProductId_ng_def document_products_def split: option.splits)
  show "getCriteriaByProductId_ng s i = Inr None"
    if "Map_get (productIdToCriteria_ng s) i = None"
    using that by (simp add: getCriteriaByProductId_ng_def)
  show "getCriteriaByProductId_ng s i = Inr None \<longleftrightarrow>
            Map_get (productIdToCriteria_ng s) i = None
            \<or> find (\<lambda>p. id_Product p = i) ps = None
            \<or> (\<exists>p. find (\<lambda>p. id_Product p = i) ps = Some p
                   \<and> Map_get (addonsMap s) (addonType p) = None)"
    if "document_products s = Some ps"
    using that
    by (auto simp: getCriteriaByProductId_ng_def document_products_def split: option.splits)
  show "getCriteriaByProductId_ng s i = Inr None
           \<or> (\<exists>mc p a. Map_get (productIdToCriteria_ng s) i = Some mc
                 \<and> find (\<lambda>p. id_Product p = i) ps = Some p
                 \<and> Map_get (addonsMap s) (addonType p) = Some a
                 \<and> getCriteriaByProductId_ng s i =
                     Inr (Some \<lparr>productId = i, addonType_Enriched = addonType p,
                                matchCriteria_Enriched = mc,
                                selectedOptions = traverseTree (tree a) mc empty_object,
                                addon = a\<rparr>))"
    if "document_products s = Some ps"
    using that
    by (auto simp: getCriteriaByProductId_ng_def document_products_def split: option.splits)
  show "getCriteriaByProductId_ng (initialize_ng constructor_ng d) i \<noteq> Inl TypeError"
  proof (cases "products (attributes d)")
    case None
    then have "Map_get (productIdToCriteria_ng (initialize_ng constructor_ng d)) i = None"
      by (simp add: Map_get_def productIdToCriteria_initialize_ng catalog_def constructor_ng_def)
    then show ?thesis by (simp add: getCriteriaByProductId_ng_def)
  next
    case (Some ps)
    then show ?thesis
      by (simp add: getCriteriaByProductId_ng_def data_ng_initialize_ng split: option.splits)
  qed
qed

lemma enriched_lookup_cases_example:
  "document_products (initialize_ng constructor_ng example_catalog) =
     Some [example_product4, example_product2, example_orphan]
   \<and> getCriteriaByProductId_ng (initialize_ng constructor_ng example_catalog) ''8800190627841'' =
       Inr (Some \<lparr>productId = ''8800190627841'', addonType_Enriched = ''firewall'',
                  matchCriteria_Enriched = [(''vendor'', ''fortigate''), (''cpu'', ''4-cpu'')],
                  selectedOptions =
                    \<lparr>own = [(''vendor'', TreeOption ''fortigate'' ''Fortigate'' ''Fortigate-ar''
                                           (Some example_cpu)),
                            (''cpu'', TreeOption ''4-cpu'' ''4 CPU'' ''4 CPU-ar'' None)],
                     proto = None\<rparr>,
                  addon = example_addon\<rparr>)
   \<and> getCriteriaByProductId_ng (initialize_ng constructor_ng example_catalog)
       ''01HE1D78EC698B5C41F4A889'' = Inr None
   \<and> getCriteriaByProductId_ng (initialize_ng constructor_ng example_catalog) ''42'' = Inr None"
proof -
  let ?s = "initialize_ng constructor_ng example_catalog"
  let ?ps = "[example_product4, example_product2, example_orphan]"
  have h: "document_products ?s = Some ?ps"
    by (simp add: document_products_def data_ng_initialize_ng)
       (simp add: example_catalog_def example_doc_def)
  note t = enriched_lookup_cases [of ?s _ ?ps]
  have tr: "traverseTree (tree example_addon) [(''vendor'', ''fortigate''), (''cpu'', ''4-cpu'')]
              empty_object =
     \<lparr>own = [(''vendor'', TreeOption ''fortigate'' ''Fortigate'' ''Fortigate-ar''
                            (Some example_cpu)),
             (''cpu'', TreeOption ''4-cpu'' ''4 CPU'' ''4 CPU-ar'' None)],
      proto = None\<rparr>"
    using traverseTree_example4 by (simp add: example_addon_def)
  have a: "getCriteriaByProductId_ng ?s ''8800190627841'' =
       Inr (Some \<lparr>productId = ''8800190627841'', addonType_Enriched = ''firewall'',
                  matchCriteria_Enriched = [(''vendor'', ''fortigate''), (''cpu'', ''4-cpu'')],
                  selectedOptions =
                    \<lparr>own = [(''vendor'', TreeOption ''fortigate'' ''Fortigate'' ''Fortigate-ar''
                                           (Some example_cpu)),
                            (''cpu'', TreeOption ''4-cpu'' ''4 CPU'' ''4 CPU-ar'' None)],
                     proto = None\<rparr>,
                  addon = example_addon\<rparr>)"
    using t [of "''8800190627841''"] tr h
    by (simp add: example_catalog_state Map_get_def example_product4_def) blast
  have b: "getCriteriaByProductId_ng ?s ''01HE1D78EC698B5C41F4A889'' = Inr None"
    using t [of "''01HE1D78EC698B5C41F4A889''"] h
    by (simp add: example_catalog_state Map_get_def)
       (simp add: example_product4_def example_product2_def example_orphan_def)
  have c: "getCriteriaByProductId_ng ?s ''42'' = Inr None"
    using t [of "''42''"] h
    by (simp add: example_catalog_state Map_get_def)
  from h a b c show ?thesis by (intro conjI)
qed

text \<open>
  Claim C6 says that the lookup returns the absent result whenever no product with the
  id is in the products sequence of the document. The code does so only where the
  document has a products sequence: \<^verbatim>\<open>initialize\<close> tests the sequence for presence
  before it iterates, the lookup calls \<^verbatim>\<open>find\<close> on it untested. After a document with a
  product and then a document without products sequence, the criteria of the product
  are still stored, no product with its id is in the document, and the lookup raises a
  \<^verbatim>\<open>TypeError\<close> where the claim has the absent result.
\<close>

theorem enriched_lookup_faults:
  "products (attributes example_no_products) = None
   \<and> Map_get (productIdToCriteria_ng
        (initialize_ng (initialize_ng constructor_ng example_old) example_no_products))
        ''8800190627841'' = Some [(''vendor'', ''fortigate''), (''cpu'', ''4-cpu'')]
   \<and> getCriteriaByProductId_ng
        (initialize_ng (initialize_ng constructor_ng example_old) example_no_products)
        ''8800190627841'' = Inl TypeError
   \<and> getCriteriaByProductId_ng (initialize_ng constructor_ng example_no_products)
        ''8800190627841'' = Inr None"
  by (simp add: getCriteriaByProductId_ng_def Map_get_def productIdToCriteria_initialize_ng
      data_ng_initialize_ng catalog_def example_old_def example_no_products_def example_doc_def
      constructor_ng_def example_product4_def)

section \<open>Initializing again\<close>

lemma lookup_fold_override:
  "map_of (fold (\<lambda>p m. Map_set m (f p) (g p)) ps m) k =
     (case map_of (fold (\<lambda>p m. Map_set m (f p) (g p)) ps []) k of
        None \<Rightarrow> map_of m k | Some v \<Rightarrow> Some v)"
  by (simp add: map_of_fold_Map_set split: option.splits)

text \<open>
  Claim C5, as the code has it. \<^verbatim>\<open>initialize\<close> stores into the maps it finds and clears
  none of them: after it has run again, a canonical key, a product id and an addon id
  resolve to what the new document alone gives when it gives something, and to what they
  resolved to before otherwise. When the new document has a products sequence, the
  enriched lookup by id returns the absent result for every id that is not in it.
\<close>

theorem reinitialize_overrides:
  "getProductIdByCriteria_ng (initialize_ng s d) c =
     (case getProductIdByCriteria_ng (initialize_ng constructor_ng d) c of
        None \<Rightarrow> getProductIdByCriteria_ng s c | Some i \<Rightarrow> Some i)
   \<and> Map_get (addonsMap (initialize_ng s d)) a =
     (case Map_get (addonsMap (initialize_ng constructor_ng d)) a of
        None \<Rightarrow> Map_get (addonsMap s) a | Some x \<Rightarrow> Some x)
   \<and> Map_get (productIdToCriteria_ng (initialize_ng s d)) i =
     (case Map_get (productIdToCriteria_ng (initialize_ng constructor_ng d)) i of
        None \<Rightarrow> Map_get (productIdToCriteria_ng s) i | Some mc \<Rightarrow> Some mc)
   \<and> (products (attributes d) = Some ps \<and> i \<notin> set (map id_Product ps)
        \<longrightarrow> getCriteriaByProductId_ng (initialize_ng s d) i = Inr None)"
proof (intro conjI impI)
  show "getProductIdByCriteria_ng (initialize_ng s d) c =
     (case getProductIdByCriteria_ng (initialize_ng constructor_ng d) c of
        None \<Rightarrow> getProductIdByCriteria_ng s c | Some i \<Rightarrow> Some i)"
    unfolding getProductIdByCriteria_ng_def Let_def Map_get_def criteriaToProductId_initialize_ng
    by (subst lookup_fold_override) (simp add: constructor_ng_def)
  show "Map_get (addonsMap (initialize_ng s d)) a =
     (case Map_get (addonsMap (initialize_ng constructor_ng d)) a of
        None \<Rightarrow> Map_get (addonsMap s) a | Some x \<Rightarrow> Some x)"
    unfolding Map_get_def addonsMap_initialize_ng
    by (subst lookup_fold_override) (simp add: constructor_ng_def)
  show "Map_get (productIdToCriteria_ng (initialize_ng s d)) i =
     (case Map_get (productIdToCriteria_ng (initialize_ng constructor_ng d)) i of
        None \<Rightarrow> Map_get (productIdToCriteria_ng s) i | Some mc \<Rightarrow> Some mc)"
    unfolding Map_get_def productIdToCriteria_initialize_ng
    by (subst lookup_fold_override) (simp add: constructor_ng_def)
next
  assume a: "products (attributes d) = Some ps \<and> i \<notin> set (map id_Product ps)"
  then have "find (\<lambda>p. id_Product p = i) ps = None"
    by (intro find_None_keys) simp
  with a show "getCriteriaByProductId_ng (initialize_ng s d) i = Inr None"
    by (simp add: getCriteriaByProductId_ng_def data_ng_initialize_ng split: option.splits)
qed

theorem reinitialize_overrides_witness:
  "products (attributes example_new) = Some [example_product2]
   \<and> ''8800190627841'' \<notin> set (map id_Product [example_product2])
   \<and> getCriteriaByProductId_ng
       (initialize_ng (initialize_ng constructor_ng example_old) example_new) ''8800190627841'' =
       Inr None
   \<and> getProductIdByCriteria_ng
       (initialize_ng (initialize_ng constructor_ng example_old) example_new)
       [(''vendor'', ''fortigate''), (''cpu'', ''2-cpu'')] = Some ''8796158984193''"
proof -
  let ?old = "initialize_ng constructor_ng example_old"
  have p: "products (attributes example_new) = Some [example_product2]"
    by (simp add: example_new_def example_doc_def)
  have i: "''8800190627841'' \<notin> set (map id_Product [example_product2])"
    by (simp add: example_product2_def)
  note t = reinitialize_overrides [of ?old example_new
      "[(''vendor'', ''fortigate''), (''cpu'', ''2-cpu'')]" _ "''8800190627841''" "[example_product2]"]
  have f: "getProductIdByCriteria_ng (initialize_ng constructor_ng example_new)
       [(''vendor'', ''fortigate''), (''cpu'', ''2-cpu'')] = Some ''8796158984193''"
    by (simp add: getProductIdByCriteria_ng_def Map_get_def criteriaToProductId_initialize_ng
        catalog_def example_new_def example_doc_def constructor_ng_def example_product2_def
        generateCriteriaKey_def Object_keys_def template_def)
  from t p i have a: "getCriteriaByProductId_ng (initialize_ng ?old example_new) ''8800190627841'' =
       Inr None"
    by blast
  from t f have b: "getProductIdByCriteria_ng (initialize_ng ?old example_new)
       [(''vendor'', ''fortigate''), (''cpu'', ''2-cpu'')] = Some ''8796158984193''"
    by simp
  from p i a b show ?thesis by (intro conjI)
qed

text \<open>
  Claim C5 as the specification states it, that nothing of the previous document stays
  reachable, fails: criteria that only a product of the previous document has still
  resolve to that product, and an addon that only the previous document registers is
  still in the addon map, where a service initialized with the new document alone gives
  the absent result for both.
\<close>

theorem reinitialize_keeps_stale_entries:
  "getProductIdByCriteria_ng (initialize_ng (initialize_ng constructor_ng example_old) example_new)
     [(''vendor'', ''fortigate''), (''cpu'', ''4-cpu'')] = Some ''8800190627841''
   \<and> getProductIdByCriteria_ng (initialize_ng constructor_ng example_new)
     [(''vendor'', ''fortigate''), (''cpu'', ''4-cpu'')] = None
   \<and> Map_get (addonsMap (initialize_ng (initialize_ng constructor_ng example_old) example_new))
       ''firewall'' = Some example_addon
   \<and> Map_get (addonsMap (initialize_ng constructor_ng example_new)) ''firewall'' = None"
  by (simp add: getProductIdByCriteria_ng_def Map_get_def criteriaToProductId_initialize_ng
      addonsMap_initialize_ng catalog_def addon_list_def example_old_def example_new_def
      example_doc_def constructor_ng_def example_product4_def example_product2_def
      example_addon_def generateCriteriaKey_def Object_keys_def template_def)



end
